theory Spec2Isabelle
  imports Complex_Main "HOL-Library.Sublist"
begin

section \<open>Python values, exceptions and outcomes\<close>

text \<open>
  The values that \<^verbatim>\<open>requests\<close>' \<^verbatim>\<open>.json()\<close> and \<^verbatim>\<open>xmltodict.parse\<close> hand to
  \<^verbatim>\<open>fbia.py\<close>: \<^verbatim>\<open>None\<close>, booleans, integers, floats, strings, lists and dicts with
  string keys. A finite float is carried as the rational number it denotes; the floats
  \<^verbatim>\<open>inf\<close>, \<^verbatim>\<open>-inf\<close> (\<open>PInf\<close>, the flag is the sign) and \<^verbatim>\<open>nan\<close> are values of
  their own. A dict is an association list in insertion order, read with \<open>map_of\<close>.
\<close>

datatype pyval =
    PNone
  | PBool bool
  | PInt int
  | PFloat rat
  | PInf bool
  | PNaN
  | PStr string
  | PList "pyval list"
  | PDict "(string \<times> pyval) list"

datatype exn =
    KeyError
  | TypeError
  | ValueError
  | IndexError
  | OverflowError
  | RequestException
  | ExpatError
  | StoreError

text \<open>
  How a call ends: it returns a value, it leaves the process through
  \<^verbatim>\<open>sys.exit(n)\<close>, or an exception that nothing catches propagates.
\<close>

datatype 'a outcome = Return 'a | Exit int | Raise exn

subsection \<open>Subscripts and iteration\<close>

text \<open>
  \<^verbatim>\<open>v[k]\<close> for a string key \<^verbatim>\<open>k\<close>: a dict raises \<^verbatim>\<open>KeyError\<close> on a missing key;
  every other value of the model raises \<^verbatim>\<open>TypeError\<close> (a list or a string wants an
  integer index, the rest are not subscriptable).
\<close>

fun subscript :: "pyval \<Rightarrow> string \<Rightarrow> exn + pyval" where
  "subscript (PDict kvs) k = (case map_of kvs k of None \<Rightarrow> Inl KeyError | Some v \<Rightarrow> Inr v)"
| "subscript _ k = Inl TypeError"

text \<open>
  \<^verbatim>\<open>for x in v\<close>: a list yields its elements, a dict its keys, a string its
  characters; nothing else is iterable.
\<close>

fun iterate :: "pyval \<Rightarrow> exn + pyval list" where
  "iterate (PList xs) = Inr xs"
| "iterate (PDict kvs) = Inr (map (\<lambda>kv. PStr (fst kv)) kvs)"
| "iterate (PStr s) = Inr (map (\<lambda>c. PStr [c]) s)"
| "iterate _ = Inl TypeError"

subsection \<open>The builtin \<^verbatim>\<open>int\<close>\<close>

text \<open>
  \<^verbatim>\<open>int(s)\<close> on a string, as CPython 3 reads base 10: surrounding whitespace is
  dropped, one sign is allowed, then decimal digits, where single underscores may stand
  between digits. A \<open>char\<close> is a code point below 256; of these, Python takes
  9 to 13, 32, 133 and 160 as whitespace here. Anything else is a \<^verbatim>\<open>ValueError\<close>.
  The bound that later interpreters put on the number of digits is left out.
\<close>

definition is_space :: "char \<Rightarrow> bool" where
  "is_space c = (of_char c \<in> {9, 10, 11, 12, 13, 32, 133, 160 :: nat})"

definition is_digit :: "char \<Rightarrow> bool" where
  "is_digit c = (48 \<le> (of_char c :: nat) \<and> (of_char c :: nat) \<le> 57)"

definition digit_val :: "char \<Rightarrow> int" where
  "digit_val c = int (of_char c) - 48"

definition strip :: "string \<Rightarrow> string" where
  "strip s = rev (dropWhile is_space (rev (dropWhile is_space s)))"

fun drop_underscores :: "string \<Rightarrow> string option" where
  "drop_underscores [] = None"
| "drop_underscores [c] = (if is_digit c then Some [c] else None)"
| "drop_underscores (c # d # rest) =
     (if is_digit c
      then (if d = CHR ''_''
            then map_option (Cons c) (drop_underscores rest)
            else map_option (Cons c) (drop_underscores (d # rest)))
      else None)"

definition decimal :: "string \<Rightarrow> int option" where
  "decimal s = map_option (foldl (\<lambda>a c. 10 * a + digit_val c) 0) (drop_underscores s)"

definition int_of_str :: "string \<Rightarrow> exn + int" where
  "int_of_str s =
     (case strip s of
        [] \<Rightarrow> Inl ValueError
      | c # cs \<Rightarrow>
          (case (if c = CHR ''-'' then map_option uminus (decimal cs)
                 else if c = CHR ''+'' then decimal cs
                 else decimal (c # cs)) of
             None \<Rightarrow> Inl ValueError
           | Some n \<Rightarrow> Inr n))"

text \<open>
  \<^verbatim>\<open>int(v)\<close>: an integer is itself, a boolean is 0 or 1, a finite float is truncated
  towards zero, \<^verbatim>\<open>nan\<close> is a \<^verbatim>\<open>ValueError\<close>, an infinity an \<^verbatim>\<open>OverflowError\<close>;
  \<^verbatim>\<open>None\<close>, lists and dicts are a \<^verbatim>\<open>TypeError\<close>.
\<close>

fun py_int :: "pyval \<Rightarrow> exn + int" where
  "py_int (PInt n) = Inr n"
| "py_int (PBool b) = Inr (if b then 1 else 0)"
| "py_int (PFloat q) = Inr (if 0 \<le> q then \<lfloor>q\<rfloor> else \<lceil>q\<rceil>)"
| "py_int PNaN = Inl ValueError"
| "py_int (PInf _) = Inl OverflowError"
| "py_int (PStr s) = int_of_str s"
| "py_int _ = Inl TypeError"

section \<open>The world the script runs in\<close>

text \<open>
  A request is what \<^verbatim>\<open>requests.get(url, params=...)\<close> is given; a response is what the
  script reads of the answer: \<^verbatim>\<open>status_code\<close>, \<^verbatim>\<open>url\<close>, \<^verbatim>\<open>text\<close> (\<open>resp_text\<close>) and the result of
  \<^verbatim>\<open>.json()\<close>, which raises when the body is not JSON.
\<close>

record request =
  req_url :: pyval
  req_params :: "(string \<times> pyval) list"

record response =
  status_code :: int
  url :: string
  resp_text :: string
  json :: "exn + pyval"

text \<open>
  \<^verbatim>\<open>print(fmt % args)\<close> is recorded as the format string with its arguments, in order.
\<close>

datatype line = Print string "pyval list"

text \<open>
  The tables of the \<^verbatim>\<open>dataset\<close> store are lists of rows, a row maps column names to
  values. The world holds the two tables the script uses, the requests sent so far and
  what was printed.
\<close>

type_synonym row = "(string \<times> pyval) list"

record world =
  calls :: "request list"
  stdout :: "line list"
  credentials :: "row list"
  fbia :: "row list"

text \<open>
  The network answers the \<open>n\<close>-th request of the run with a response or with an
  exception of \<^verbatim>\<open>requests\<close>.
\<close>

type_synonym network = "nat \<Rightarrow> request \<Rightarrow> exn + response"

type_synonym 'a prog = "world \<Rightarrow> 'a outcome \<times> world"

definition ret :: "'a \<Rightarrow> 'a prog" where
  "ret x = (\<lambda>w. (Return x, w))"

definition raise :: "exn \<Rightarrow> 'a prog" where
  "raise e = (\<lambda>w. (Raise e, w))"

definition sys_exit :: "int \<Rightarrow> 'a prog" where
  "sys_exit n = (\<lambda>w. (Exit n, w))"

definition seq :: "'a prog \<Rightarrow> ('a \<Rightarrow> 'b prog) \<Rightarrow> 'b prog" where
  "seq m f = (\<lambda>w. case m w of
                      (Return x, w') \<Rightarrow> f x w'
                    | (Exit n, w') \<Rightarrow> (Exit n, w')
                    | (Raise e, w') \<Rightarrow> (Raise e, w'))"

definition lift :: "exn + 'a \<Rightarrow> 'a prog" where
  "lift r = (case r of Inl e \<Rightarrow> raise e | Inr x \<Rightarrow> ret x)"

definition print :: "string \<Rightarrow> pyval list \<Rightarrow> unit prog" where
  "print fmt args = (\<lambda>w. (Return (), w\<lparr>stdout := stdout w @ [Print fmt args]\<rparr>))"

definition requests_get :: "network \<Rightarrow> request \<Rightarrow> response prog" where
  "requests_get net rq =
     (\<lambda>w. (case net (length (calls w)) rq of Inl e \<Rightarrow> Raise e | Inr r \<Rightarrow> Return r,
           w\<lparr>calls := calls w @ [rq]\<rparr>))"

section \<open>The store\<close>

text \<open>
  The tables are kept by \<^verbatim>\<open>dataset\<close> in SQLite. Every table of \<^verbatim>\<open>dataset\<close> has an
  integer primary key column \<^verbatim>\<open>id\<close>, so a stored row always carries an integer there.
  What SQLite makes of the values it is handed is a parameter of the model, the engine:
  \<^item> \<open>key_of v\<close>: how a value offered for \<^verbatim>\<open>id\<close> is read: as the integer key \<open>n\<close>
    (an integer, a text that reads as one), as no key at all (\<^verbatim>\<open>None\<close>: SQLite then
    picks the key itself), or not at all (the statement fails);
  \<^item> \<open>stored c v\<close>: what column \<open>c\<close> holds after \<open>v\<close> is written to it, or nothing when
    \<open>v\<close> cannot be bound (a list, an integer beyond 64 bits);
  \<^item> \<open>next_id ids\<close>: the key SQLite picks for a row that brings none, given the keys
    in use.
  Every failure of the store is the one exception \<open>StoreError\<close>.
\<close>

datatype key = Key int | Auto | Reject

record engine =
  key_of :: "pyval \<Rightarrow> key"
  stored :: "string \<Rightarrow> pyval \<Rightarrow> pyval option"
  next_id :: "int list \<Rightarrow> int"

text \<open>A column that a row does not have reads as \<^verbatim>\<open>None\<close>.\<close>

definition row_get :: "row \<Rightarrow> string \<Rightarrow> pyval" where
  "row_get r column = (case map_of r column of None \<Rightarrow> PNone | Some v \<Rightarrow> v)"

definition ids_of :: "row list \<Rightarrow> int list" where
  "ids_of rows =
     List.map_filter (\<lambda>r. case row_get r ''id'' of PInt n \<Rightarrow> Some n | _ \<Rightarrow> None) rows"

text \<open>
  The columns of a row other than \<^verbatim>\<open>id\<close>, as the store will hold them; nothing when
  one of the values cannot be bound.
\<close>

fun bind_columns :: "engine \<Rightarrow> row \<Rightarrow> row option" where
  "bind_columns eng [] = Some []"
| "bind_columns eng (cv # rest) =
     (if fst cv = ''id'' then bind_columns eng rest
      else (case stored eng (fst cv) (snd cv) of
              None \<Rightarrow> None
            | Some v \<Rightarrow> map_option (Cons (fst cv, v)) (bind_columns eng rest)))"

text \<open>
  \<^verbatim>\<open>insert(row)\<close>: the row is added at the end under its own key, when it brings one
  that is free, or under a key that SQLite picks.
\<close>

definition insert_row :: "engine \<Rightarrow> row \<Rightarrow> row list \<Rightarrow> exn + row list" where
  "insert_row eng new rows =
     (case bind_columns eng new of
        None \<Rightarrow> Inl StoreError
      | Some data \<Rightarrow>
          (case (case map_of new ''id'' of None \<Rightarrow> Auto | Some v \<Rightarrow> key_of eng v) of
             Reject \<Rightarrow> Inl StoreError
           | Auto \<Rightarrow> Inr (rows @ [(''id'', PInt (next_id eng (ids_of rows))) # data])
           | Key n \<Rightarrow>
               if n \<in> set (ids_of rows) then Inl StoreError
               else Inr (rows @ [(''id'', PInt n) # data])))"



section \<open>\<^verbatim>\<open>get_insights_total\<close>\<close>

definition period_of :: "string \<Rightarrow> string" where
  "period_of metric = (if metric = ''all_views'' then ''day'' else ''week'')"

definition since_of :: "string \<Rightarrow> string" where
  "since_of metric =
     (if metric = ''all_view_durations_average'' then ''24 Mar, 2016'' else ''15 Jan, 2016'')"

definition query_of :: "string \<Rightarrow> string" where
  "query_of metric =
     ''instant_article{insights.metric('' @ metric @ '').period('' @ period_of metric
       @ '').since('' @ since_of metric @ '')}''"

definition insights_request :: "pyval \<Rightarrow> string \<Rightarrow> pyval \<Rightarrow> request" where
  "insights_request article metric page_access_token =
     \<lparr>req_url = PStr ''https://graph.facebook.com/v2.6/'',
      req_params = [(''fields'', PStr (query_of metric)),
                    (''id'', article),
                    (''access_token'', page_access_token)]\<rparr>"

text \<open>The expression of the \<^verbatim>\<open>try\<close> block, line 49.\<close>

definition insights_data :: "response \<Rightarrow> exn + pyval" where
  "insights_data r =
     (case json r of Inl e \<Rightarrow> Inl e | Inr body \<Rightarrow>
      (case subscript body ''instant_article'' of Inl e \<Rightarrow> Inl e | Inr ia \<Rightarrow>
       (case subscript ia ''insights'' of Inl e \<Rightarrow> Inl e | Inr ins \<Rightarrow>
          subscript ins ''data'')))"

text \<open>The loop of lines 57 to 59, the running total as accumulator.\<close>

fun total_loop :: "int \<Rightarrow> pyval list \<Rightarrow> exn + int" where
  "total_loop metric_total [] = Inr metric_total"
| "total_loop metric_total (day # days) =
     (case subscript day ''value'' of Inl e \<Rightarrow> Inl e | Inr v \<Rightarrow>
      (case py_int v of Inl e \<Rightarrow> Inl e | Inr n \<Rightarrow> total_loop (metric_total + n) days))"

definition get_insights_total :: "network \<Rightarrow> pyval \<Rightarrow> string \<Rightarrow> pyval \<Rightarrow> int prog" where
  \<open>get_insights_total net article metric page_access_token =
     seq (requests_get net (insights_request article metric page_access_token)) (\<lambda>api_request.
       if status_code api_request \<noteq> 200
       then seq (print ''HTTP error fetching "%s" from Facebook API.'' [PStr (url api_request)])
              (\<lambda>_. sys_exit 1)
       else (case insights_data api_request of
               Inl KeyError \<Rightarrow>
                 seq (print ''** No data for "%s" metric from "%s".''
                        [PStr metric, PStr (url api_request)])
                   (\<lambda>_. ret 0)
             | Inl e \<Rightarrow> raise e
             | Inr views \<Rightarrow>
                 (case iterate views of
                    Inl e \<Rightarrow> raise e
                  | Inr days \<Rightarrow> lift (total_loop 0 days))))\<close>

section \<open>The page access token\<close>

text \<open>\<^verbatim>\<open>os.environ.get(name)\<close>: the variable's value, or \<^verbatim>\<open>None\<close> when it is not set.\<close>

type_synonym environ = "string \<Rightarrow> string option"

definition environ_get :: "environ \<Rightarrow> string \<Rightarrow> pyval" where
  "environ_get env name = (case env name of None \<Rightarrow> PNone | Some s \<Rightarrow> PStr s)"

text \<open>
  \<^verbatim>\<open>s.split(sep)\<close> for a separator of one character (never an empty list), and
  \<^verbatim>\<open>xs[i]\<close> for a list and an index that is not negative.
\<close>

fun split_on :: "char \<Rightarrow> string \<Rightarrow> string list" where
  "split_on sep [] = [[]]"
| "split_on sep (c # cs) =
     (if c = sep then [] # split_on sep cs
      else (case split_on sep cs of
              [] \<Rightarrow> [[c]]
            | piece # pieces \<Rightarrow> (c # piece) # pieces))"

definition index :: "'a list \<Rightarrow> nat \<Rightarrow> exn + 'a" where
  "index xs i = (if i < length xs then Inr (xs ! i) else Inl IndexError)"

text \<open>The expression of line 84: \<^verbatim>\<open>text.split('=')[1].split('&')[0]\<close>.\<close>

definition token_of_text :: "string \<Rightarrow> exn + string" where
  "token_of_text t =
     (case index (split_on CHR ''='' t) 1 of
        Inl e \<Rightarrow> Inl e
      | Inr rest \<Rightarrow> index (split_on CHR ''&'' rest) 0)"

definition user_token_request :: "environ \<Rightarrow> request" where
  "user_token_request env =
     \<lparr>req_url = PStr ''https://graph.facebook.com/oauth/access_token'',
      req_params = [(''grant_type'', PStr ''fb_exchange_token''),
                    (''client_id'', environ_get env ''FB_CLIENT_ID''),
                    (''client_secret'', environ_get env ''FB_CLIENT_SECRET''),
                    (''fb_exchange_token'', environ_get env ''FB_USER_TOKEN'')]\<rparr>"

definition get_long_lived_user_token :: "environ \<Rightarrow> network \<Rightarrow> string prog" where
  \<open>get_long_lived_user_token env net =
     seq (print ''- Exchanging the provided user token for a long-lived token'' []) (\<lambda>_.
     seq (requests_get net (user_token_request env)) (\<lambda>token_request.
       case token_of_text (resp_text token_request) of
         Inl IndexError \<Rightarrow>
           seq (print ''Failed to fetch a page access token. Response: "%s" from "%s"''
                  [PStr (resp_text token_request), PStr (url token_request)])
             (\<lambda>_. sys_exit 1)
       | Inl e \<Rightarrow> raise e
       | Inr token \<Rightarrow> ret token))\<close>

text \<open>
  \<^verbatim>\<open>find_one(type=v)\<close> is the first row of the table whose column has the value.
\<close>

definition find_one :: "string \<Rightarrow> pyval \<Rightarrow> row list \<Rightarrow> row option" where
  "find_one column v rows = find (\<lambda>r. map_of r column = Some v) rows"

definition get_credentials :: "row list prog" where
  "get_credentials = (\<lambda>w. (Return (credentials w), w))"

definition insert_credentials :: "engine \<Rightarrow> row \<Rightarrow> unit prog" where
  "insert_credentials eng r =
     (\<lambda>w. case insert_row eng r (credentials w) of
            Inl e \<Rightarrow> (Raise e, w)
          | Inr rows \<Rightarrow> (Return (), w\<lparr>credentials := rows\<rparr>))"

definition page_token_request :: "pyval \<Rightarrow> request" where
  "page_token_request user_token =
     \<lparr>req_url = PStr ''https://graph.facebook.com/v2.6/dallasmorningnews/'',
      req_params = [(''fields'', PStr ''access_token''), (''access_token'', user_token)]\<rparr>"

text \<open>The expression of line 116: \<^verbatim>\<open>token_request.json()['access_token']\<close>.\<close>

definition page_token_of :: "response \<Rightarrow> exn + pyval" where
  "page_token_of r =
     (case json r of Inl e \<Rightarrow> Inl e | Inr body \<Rightarrow> subscript body ''access_token'')"

definition get_page_access_token :: "engine \<Rightarrow> environ \<Rightarrow> network \<Rightarrow> pyval prog" where
  \<open>get_page_access_token eng env net =
     seq (print ''- Getting a Facebook page access token'' []) (\<lambda>_.
     seq get_credentials (\<lambda>fb_table.
       case find_one ''type'' (PStr ''page_token'') fb_table of
         Some token_row \<Rightarrow> lift (subscript (PDict token_row) ''token'')
       | None \<Rightarrow>
           seq (print ''- Fetching a new Facebook page access token'' []) (\<lambda>_.
           seq (get_long_lived_user_token env net) (\<lambda>user_token.
           seq (requests_get net (page_token_request (PStr user_token))) (\<lambda>token_request.
             case page_token_of token_request of
               Inl KeyError \<Rightarrow>
                 seq (print ''Failed to fetch a page access token. Response: "%s"''
                        [PStr (resp_text token_request)])
                   (\<lambda>_. sys_exit 1)
             | Inl e \<Rightarrow> raise e
             | Inr page_token \<Rightarrow>
                 seq (insert_credentials eng
                        [(''type'', PStr ''page_token''), (''token'', page_token)])
                   (\<lambda>_. ret page_token))))))\<close>

section \<open>The feed\<close>

text \<open>
  \<^verbatim>\<open>xmltodict.parse\<close> is a parameter: it turns a body into a value or raises.
\<close>

definition get_facebook_feed ::
  "environ \<Rightarrow> network \<Rightarrow> (string \<Rightarrow> exn + pyval) \<Rightarrow> pyval prog" where
  \<open>get_facebook_feed env net xml_parse =
     seq (print ''- Getting article URLs from RSS feed "%s"'' [environ_get env ''FEED_URL'']) (\<lambda>_.
     seq (requests_get net \<lparr>req_url = environ_get env ''FEED_URL'', req_params = []\<rparr>) (\<lambda>feed.
       lift (xml_parse (resp_text feed))))\<close>

section \<open>\<^verbatim>\<open>get_insights\<close>\<close>











section \<open>Concrete inputs\<close>

text \<open>
  A fresh store with nothing sent or printed, an answer of the Graph API, a network that
  gives the same answer to every request, and the body of an insights answer.
\<close>

definition empty_world :: world where
  "empty_world = \<lparr>calls = [], stdout = [], credentials = [], fbia = []\<rparr>"

definition answer :: "int \<Rightarrow> string \<Rightarrow> exn + pyval \<Rightarrow> response" where
  "answer code body parsed =
     \<lparr>status_code = code, url = ''https://graph.facebook.com/v2.6/?id=x'',
      resp_text = body, json = parsed\<rparr>"

definition always :: "response \<Rightarrow> network" where
  "always r = (\<lambda>n rq. Inr r)"

definition insights_body :: "pyval list \<Rightarrow> pyval" where
  "insights_body days =
     PDict [(''instant_article'', PDict [(''insights'', PDict [(''data'', PList days)])])]"

definition datapoint :: "pyval \<Rightarrow> pyval" where
  "datapoint v = PDict [(''value'', v)]"

text \<open>
  A network that answers the requests of a run from a list, in order, and fails when the
  list is used up; an environment; a store that holds a page token; answers of the two
  token exchanges and an error answer; a parser that knows one body.
\<close>

definition answers :: "response list \<Rightarrow> network" where
  "answers rs = (\<lambda>n rq. if n < length rs then Inr (rs ! n) else Inl RequestException)"

definition example_env :: environ where
  "example_env =
     map_of [(''FB_CLIENT_ID'', ''1''), (''FB_CLIENT_SECRET'', ''s''), (''FB_USER_TOKEN'', ''u''),
             (''FEED_URL'', ''http://x/feed'')]"

definition cached_world :: world where
  "cached_world =
     empty_world\<lparr>credentials :=
       [[(''id'', PInt 1), (''type'', PStr ''page_token''), (''token'', PStr ''PAGE'')]]\<rparr>"

definition user_token_answer :: response where
  "user_token_answer = answer 200 ''access_token=LONG&expires=5183999'' (Inl ValueError)"

definition page_token_answer :: response where
  \<open>page_token_answer =
     answer 200 ''{"access_token":"PAGE","id":"1"}''
       (Inr (PDict [(''access_token'', PStr ''PAGE''), (''id'', PStr ''1'')]))\<close>

definition error_answer :: response where
  \<open>error_answer =
     answer 400 ''{"error":{"code":190}}'' (Inr (PDict [(''error'', PDict [(''code'', PInt 190)])]))\<close>

definition example_parse :: "string \<Rightarrow> exn + pyval" where
  "example_parse body = (if body = ''<rss/>'' then Inr (PDict [(''rss'', PNone)]) else Inl ExpatError)"

text \<open>
  An engine for the examples, which hand the store texts, integers and \<^verbatim>\<open>None\<close>
  only. Of these it makes what SQLite makes of them: a text of decimal digits and an
  integer of 64 bits are keys, \<^verbatim>\<open>None\<close> is no key, any other text is no integer; texts,
  integers of 64 bits and \<^verbatim>\<open>None\<close> are held as they are; a fresh key is one more than
  the largest in use. It refuses every other value.
\<close>

definition digits_key :: "string \<Rightarrow> key" where
  "digits_key s =
     (if s \<noteq> [] \<and> list_all is_digit s
         \<and> foldl (\<lambda>a c. 10 * a + digit_val c) 0 s < 9223372036854775808
      then Key (foldl (\<lambda>a c. 10 * a + digit_val c) 0 s) else Reject)"

definition example_engine :: engine where
  "example_engine =
     \<lparr>key_of = (\<lambda>v. case v of
                      PNone \<Rightarrow> Auto
                    | PInt n \<Rightarrow>
                        if - 9223372036854775808 \<le> n \<and> n < 9223372036854775808
                        then Key n else Reject
                    | PStr s \<Rightarrow> digits_key s
                    | _ \<Rightarrow> Reject),
      stored = (\<lambda>c v. case v of
                        PNone \<Rightarrow> Some v
                      | PStr s \<Rightarrow> Some v
                      | PInt n \<Rightarrow>
                          if - 9223372036854775808 \<le> n \<and> n < 9223372036854775808
                          then Some v else None
                      | _ \<Rightarrow> None),
      next_id = (\<lambda>ids. case ids of [] \<Rightarrow> 1 | i # rest \<Rightarrow> fold max rest i + 1)\<rparr>"










section \<open>Sequencing and the primitives\<close>

lemma seq_Return: "m w = (Return x, w') \<Longrightarrow> seq m f w = f x w'"
  by (simp add: seq_def)


lemma requests_get_Inr:
  "net (length (calls w)) rq = Inr r \<Longrightarrow>
   requests_get net rq w = (Return r, w\<lparr>calls := calls w @ [rq]\<rparr>)"
  by (simp add: requests_get_def)




lemmas run_defs = get_insights_total_def seq_def requests_get_def print_def ret_def raise_def
  sys_exit_def lift_def insights_data_def always_def answer_def empty_world_def

lemma int_of_str_examples:
  "int_of_str ''3'' = Inr 3" "int_of_str ''5'' = Inr 5" "int_of_str ''-5'' = Inr (-5)"
  by (simp_all add: int_of_str_def strip_def is_space_def decimal_def is_digit_def digit_val_def)

section \<open>The metric total\<close>

lemma total_loop_sum:
  "list_all2 (\<lambda>d n. \<exists>v. subscript d ''value'' = Inr v \<and> py_int v = Inr n) days ns \<Longrightarrow>
   total_loop acc days = Inr (acc + sum_list ns)"
proof (induction days arbitrary: acc ns)
  case Nil
  then show ?case by simp
next
  case (Cons d days)
  then obtain n ns' where ns: "ns = n # ns'" by (cases ns) auto
  with Cons.prems obtain v where "subscript d ''value'' = Inr v" "py_int v = Inr n"
    and rest: "list_all2 (\<lambda>d n. \<exists>v. subscript d ''value'' = Inr v \<and> py_int v = Inr n) days ns'"
    by auto
  then show ?case using Cons.IH [OF rest] ns by (simp add: add.assoc)
qed



lemma get_insights_total_calls:
  "calls (snd (get_insights_total net article metric token w)) =
   calls w @ [insights_request article metric token]"
  by (simp add: get_insights_total_def seq_def requests_get_def print_def sys_exit_def ret_def
      raise_def lift_def split: sum.splits exn.splits)

text \<open>
  C1. When the answer has status 200, its data path holds a list, and every datapoint of
  the list is a dict whose \<^verbatim>\<open>'value'\<close> has an integer interpretation, the call returns
  the sum of these integers, in particular 8 for the values "3" and "5".
\<close>

theorem get_insights_total_sum:
  assumes "net (length (calls w)) (insights_request article metric token) = Inr r"
      and "status_code r = 200"
      and "insights_data r = Inr (PList days)"
      and "list_all2 (\<lambda>d n. \<exists>v. subscript d ''value'' = Inr v \<and> py_int v = Inr n) days ns"
  shows "fst (get_insights_total net article metric token w) = Return (sum_list ns)"
  using assms total_loop_sum [OF assms(4), of 0]
  by (simp add: get_insights_total_def seq_Return [OF requests_get_Inr] lift_def ret_def)

theorem get_insights_total_sum_witness:
  "fst (get_insights_total
          (always (answer 200 [] (Inr (insights_body [datapoint (PStr ''3''), datapoint (PStr ''5'')]))))
          (PStr ''http://x/1'') ''all_views'' (PStr ''T'') empty_world) = Return 8"
proof -
  let ?days = "[datapoint (PStr ''3''), datapoint (PStr ''5'')]"
  let ?r = "answer 200 [] (Inr (insights_body ?days))"
  have sent: "always ?r (length (calls empty_world))
                (insights_request (PStr ''http://x/1'') ''all_views'' (PStr ''T'')) = Inr ?r"
    by (simp add: always_def)
  have ok: "status_code ?r = 200"
    by (simp add: answer_def)
  have data: "insights_data ?r = Inr (PList ?days)"
    by (simp add: answer_def insights_data_def insights_body_def)
  have vals: "list_all2 (\<lambda>d n. \<exists>v. subscript d ''value'' = Inr v \<and> py_int v = Inr n) ?days [3, 5]"
    by (simp add: datapoint_def int_of_str_examples)
  show ?thesis
    using get_insights_total_sum [of "always ?r" empty_world, OF sent ok data vals] by simp
qed

text \<open>
  C2. Whatever the answer, the call sends exactly one request, and its \<^verbatim>\<open>fields\<close>
  query names the metric with period "week" and start date "15 Jan, 2016", except that
  the period is "day" for \<^verbatim>\<open>all_views\<close> and the start date is "24 Mar, 2016" for
  \<^verbatim>\<open>all_view_durations_average\<close>.
\<close>

theorem get_insights_total_query:
  "calls (snd (get_insights_total net article metric token w)) =
   calls w @
   [\<lparr>req_url = PStr ''https://graph.facebook.com/v2.6/'',
     req_params =
       [(''fields'', PStr (''instant_article{insights.metric('' @ metric @ '').period(''
           @ (if metric = ''all_views'' then ''day'' else ''week'') @ '').since(''
           @ (if metric = ''all_view_durations_average'' then ''24 Mar, 2016''
              else ''15 Jan, 2016'') @ '')}'')),
        (''id'', article),
        (''access_token'', token)]\<rparr>]"
  by (simp add: get_insights_total_calls insights_request_def query_of_def period_of_def
      since_of_def)

theorem get_insights_total_query_witness:
  "calls (snd (get_insights_total (always (answer 200 [] (Inr PNone)))
                 (PStr ''http://x/1'') ''all_scrolls_average'' (PStr ''T'') empty_world)) =
   [\<lparr>req_url = PStr ''https://graph.facebook.com/v2.6/'',
     req_params =
       [(''fields'',
         PStr ''instant_article{insights.metric(all_scrolls_average).period(week).since(15 Jan, 2016)}''),
        (''id'', PStr ''http://x/1''),
        (''access_token'', PStr ''T'')]\<rparr>]"
  using get_insights_total_query
    [of "always (answer 200 [] (Inr PNone))" "PStr ''http://x/1''" "''all_scrolls_average''"
        "PStr ''T''" empty_world]
  by (simp add: empty_world_def)




text \<open>
  C5. When the answer has status 200 and a key of the path
  \<^verbatim>\<open>instant_article.insights.data\<close> is missing from the dict that should hold it (the
  lookup of line 49 raises \<^verbatim>\<open>KeyError\<close>), the call prints the notice and returns 0; it
  neither raises nor exits. A body whose path ends at a value that is not a dict, as
  \<^verbatim>\<open>{"instant_article": null}\<close>, lacks the data too, but raises \<^verbatim>\<open>TypeError\<close>.
\<close>

theorem get_insights_total_no_data:
  assumes "net (length (calls w)) (insights_request article metric token) = Inr r"
      and "status_code r = 200"
      and "insights_data r = Inl KeyError"
    shows \<open>get_insights_total net article metric token w =
           (Return 0,
            w\<lparr>calls := calls w @ [insights_request article metric token],
              stdout := stdout w @
                [Print ''** No data for "%s" metric from "%s".'' [PStr metric, PStr (url r)]]\<rparr>)\<close>
  using assms
  by (simp add: get_insights_total_def requests_get_def seq_def print_def ret_def)

theorem get_insights_total_no_data_witness:
  \<open>get_insights_total (always (answer 200 [] (Inr (PDict [(''id'', PStr ''http://x/1'')]))))
     (PStr ''http://x/1'') ''all_views'' (PStr ''T'') empty_world =
   (Return 0,
    \<lparr>calls = [insights_request (PStr ''http://x/1'') ''all_views'' (PStr ''T'')],
     stdout = [Print ''** No data for "%s" metric from "%s".''
                 [PStr ''all_views'', PStr ''https://graph.facebook.com/v2.6/?id=x'']],
     credentials = [], fbia = []\<rparr>)\<close>
  using get_insights_total_no_data
    [of "always (answer 200 [] (Inr (PDict [(''id'', PStr ''http://x/1'')])))" empty_world
        "PStr ''http://x/1''" "''all_views''" "PStr ''T''"
        "answer 200 [] (Inr (PDict [(''id'', PStr ''http://x/1'')]))"]
  by (simp add: always_def answer_def empty_world_def insights_data_def)

theorem get_insights_total_null_path_counterexample:
  "insights_data (answer 200 [] (Inr (PDict [(''instant_article'', PNone)]))) = Inl TypeError \<and>
   fst (get_insights_total (always (answer 200 [] (Inr (PDict [(''instant_article'', PNone)]))))
          (PStr ''http://x/1'') ''all_views'' (PStr ''T'') empty_world) = Raise TypeError"
  by (simp add: run_defs)

text \<open>
  C6. When the answer's status is not 200, the call prints the message with the
  request's URL and then leaves the process with exit status 1; it returns no value.
\<close>

theorem get_insights_total_http_error:
  assumes "net (length (calls w)) (insights_request article metric token) = Inr r"
      and "status_code r \<noteq> 200"
    shows \<open>get_insights_total net article metric token w =
           (Exit 1,
            w\<lparr>calls := calls w @ [insights_request article metric token],
              stdout := stdout w @
                [Print ''HTTP error fetching "%s" from Facebook API.'' [PStr (url r)]]\<rparr>)\<close>
  using assms
  by (simp add: get_insights_total_def requests_get_def seq_def print_def sys_exit_def)

theorem get_insights_total_http_error_witness:
  \<open>get_insights_total (always (answer 500 ''Internal error'' (Inl ValueError)))
     (PStr ''http://x/1'') ''all_views'' (PStr ''T'') empty_world =
   (Exit 1,
    \<lparr>calls = [insights_request (PStr ''http://x/1'') ''all_views'' (PStr ''T'')],
     stdout = [Print ''HTTP error fetching "%s" from Facebook API.''
                 [PStr ''https://graph.facebook.com/v2.6/?id=x'']],
     credentials = [], fbia = []\<rparr>)\<close>
  using get_insights_total_http_error
    [of "always (answer 500 ''Internal error'' (Inl ValueError))" empty_world
        "PStr ''http://x/1''" "''all_views''" "PStr ''T''"
        "answer 500 ''Internal error'' (Inl ValueError)"]
  by (simp add: always_def answer_def empty_world_def)

section \<open>The token manager\<close>

text \<open>
  \<^verbatim>\<open>split\<close> gives one piece more than there are separators, so line 84 raises
  \<^verbatim>\<open>IndexError\<close> exactly when the body holds no \<^verbatim>\<open>=\<close>.
\<close>

lemma split_on_length: "length (split_on sep s) = Suc (length (filter (\<lambda>c. c = sep) s))"
  by (induction s) (auto split: list.splits)

lemma split_on_not_Nil: "split_on sep s \<noteq> []"
  using split_on_length [of sep s] by auto

lemma token_of_text_IndexError:
  "token_of_text t = Inl IndexError \<longleftrightarrow> CHR ''='' \<notin> set t"
proof -
  have "length (split_on CHR ''='' t) \<le> 1 \<longleftrightarrow> CHR ''='' \<notin> set t"
    by (auto simp: split_on_length filter_empty_conv)
  moreover have "index (split_on CHR ''&'' rest) 0 \<noteq> Inl IndexError" for rest
    using split_on_not_Nil [of "CHR ''&''" rest] by (simp add: index_def)
  ultimately show ?thesis
    by (auto simp: token_of_text_def index_def split: sum.splits)
qed

lemmas token_defs = get_page_access_token_def get_long_lived_user_token_def get_credentials_def
  insert_credentials_def insert_row_def seq_def requests_get_def print_def ret_def raise_def
  sys_exit_def lift_def

lemmas example_defs = answers_def example_env_def cached_world_def user_token_answer_def
  page_token_answer_def error_answer_def answer_def empty_world_def

lemmas engine_defs = example_engine_def digits_key_def is_digit_def digit_val_def ids_of_def
  row_get_def List.map_filter_def

lemma token_of_text_examples:
  "token_of_text ''access_token=LONG&expires=5183999'' = Inr ''LONG''"
  "token_of_text ''error=1'' = Inr ''1''"
  by (simp_all add: token_of_text_def index_def)

text \<open>
  C7. When the credentials table holds a row of type \<^verbatim>\<open>page_token\<close>, the call returns
  the token of the first such row as it is stored. It only prints its message: no
  request is sent and both tables stay as they were.
\<close>

theorem get_page_access_token_cached:
  assumes "find_one ''type'' (PStr ''page_token'') (credentials w) = Some token_row"
      and "map_of token_row ''token'' = Some token"
    shows "get_page_access_token eng env net w =
           (Return token, w\<lparr>stdout := stdout w @ [Print ''- Getting a Facebook page access token'' []]\<rparr>)"
  using assms by (simp add: token_defs)

theorem get_page_access_token_cached_witness:
  "get_page_access_token example_engine example_env (answers []) cached_world =
   (Return (PStr ''PAGE''),
    \<lparr>calls = [],
     stdout = [Print ''- Getting a Facebook page access token'' []],
     credentials = [[(''id'', PInt 1), (''type'', PStr ''page_token''), (''token'', PStr ''PAGE'')]],
     fbia = []\<rparr>)"
  using get_page_access_token_cached
    [of cached_world "[(''id'', PInt 1), (''type'', PStr ''page_token''), (''token'', PStr ''PAGE'')]"
        "PStr ''PAGE''" example_engine example_env "answers []"]
  by (simp add: cached_world_def empty_world_def find_one_def)



text \<open>
  C9. With no stored token: when the body of the first exchange holds no \<^verbatim>\<open>=\<close>, or
  when the JSON of the second exchange is a dict without the key
  \<^verbatim>\<open>access_token\<close>, the call prints the raw body of that answer and leaves the
  process with exit status 1, and the credentials table is unchanged. A first body with
  a field other than the token, as \<^verbatim>\<open>error=1\<close>, is not detected: its value is taken
  as the token, and the run can end with a stored row.
\<close>

theorem get_page_access_token_malformed:
  assumes "find_one ''type'' (PStr ''page_token'') (credentials w) = None"
      and "net (length (calls w)) (user_token_request env) = Inr r1"
    shows \<open>(CHR ''='' \<notin> set (resp_text r1) \<longrightarrow>
            get_page_access_token eng env net w =
            (Exit 1,
             w\<lparr>calls := calls w @ [user_token_request env],
               stdout := stdout w @
                 [Print ''- Getting a Facebook page access token'' [],
                  Print ''- Fetching a new Facebook page access token'' [],
                  Print ''- Exchanging the provided user token for a long-lived token'' [],
                  Print ''Failed to fetch a page access token. Response: "%s" from "%s"''
                    [PStr (resp_text r1), PStr (url r1)]]\<rparr>)) \<and>
           (\<forall>user_token r2 kvs.
              token_of_text (resp_text r1) = Inr user_token \<longrightarrow>
              net (Suc (length (calls w))) (page_token_request (PStr user_token)) = Inr r2 \<longrightarrow>
              json r2 = Inr (PDict kvs) \<longrightarrow> map_of kvs ''access_token'' = None \<longrightarrow>
              get_page_access_token eng env net w =
              (Exit 1,
               w\<lparr>calls := calls w @
                   [user_token_request env, page_token_request (PStr user_token)],
                 stdout := stdout w @
                   [Print ''- Getting a Facebook page access token'' [],
                    Print ''- Fetching a new Facebook page access token'' [],
                    Print ''- Exchanging the provided user token for a long-lived token'' [],
                    Print ''Failed to fetch a page access token. Response: "%s"''
                      [PStr (resp_text r2)]]\<rparr>))\<close>
proof (intro conjI impI allI)
  assume "CHR ''='' \<notin> set (resp_text r1)"
  then have "token_of_text (resp_text r1) = Inl IndexError"
    by (simp add: token_of_text_IndexError)
  with assms show "get_page_access_token eng env net w =
            (Exit 1,
             w\<lparr>calls := calls w @ [user_token_request env],
               stdout := stdout w @
                 [Print ''- Getting a Facebook page access token'' [],
                  Print ''- Fetching a new Facebook page access token'' [],
                  Print ''- Exchanging the provided user token for a long-lived token'' [],
                  Print ''Failed to fetch a page access token. Response: \"%s\" from \"%s\"''
                    [PStr (resp_text r1), PStr (url r1)]]\<rparr>)"
    by (simp add: token_defs)
next
  fix user_token r2 kvs
  assume "token_of_text (resp_text r1) = Inr user_token"
    and "net (Suc (length (calls w))) (page_token_request (PStr user_token)) = Inr r2"
    and "json r2 = Inr (PDict kvs)" and "map_of kvs ''access_token'' = None"
  with assms show "get_page_access_token eng env net w =
              (Exit 1,
               w\<lparr>calls := calls w @
                   [user_token_request env, page_token_request (PStr user_token)],
                 stdout := stdout w @
                   [Print ''- Getting a Facebook page access token'' [],
                    Print ''- Fetching a new Facebook page access token'' [],
                    Print ''- Exchanging the provided user token for a long-lived token'' [],
                    Print ''Failed to fetch a page access token. Response: \"%s\"''
                      [PStr (resp_text r2)]]\<rparr>)"
    by (simp add: token_defs page_token_of_def)
qed

theorem get_page_access_token_malformed_witness:
  \<open>get_page_access_token example_engine example_env (answers [error_answer]) empty_world =
   (Exit 1,
    \<lparr>calls = [user_token_request example_env],
     stdout = [Print ''- Getting a Facebook page access token'' [],
               Print ''- Fetching a new Facebook page access token'' [],
               Print ''- Exchanging the provided user token for a long-lived token'' [],
               Print ''Failed to fetch a page access token. Response: "%s" from "%s"''
                 [PStr ''{"error":{"code":190}}'', PStr ''https://graph.facebook.com/v2.6/?id=x'']],
     credentials = [], fbia = []\<rparr>) \<and>
   get_page_access_token example_engine example_env (answers [user_token_answer, error_answer])
     empty_world =
   (Exit 1,
    \<lparr>calls = [user_token_request example_env, page_token_request (PStr ''LONG'')],
     stdout = [Print ''- Getting a Facebook page access token'' [],
               Print ''- Fetching a new Facebook page access token'' [],
               Print ''- Exchanging the provided user token for a long-lived token'' [],
               Print ''Failed to fetch a page access token. Response: "%s"''
                 [PStr ''{"error":{"code":190}}'']],
     credentials = [], fbia = []\<rparr>)\<close>
proof -
  have none: "find_one ''type'' (PStr ''page_token'') (credentials empty_world) = None"
    by (simp add: empty_world_def find_one_def)
  have first: "answers [error_answer] (length (calls empty_world)) (user_token_request example_env)
               = Inr error_answer"
    by (simp add: answers_def empty_world_def)
  have first': "answers [user_token_answer, error_answer] (length (calls empty_world))
                  (user_token_request example_env) = Inr user_token_answer"
    by (simp add: answers_def empty_world_def)
  have tok: "token_of_text (resp_text user_token_answer) = Inr ''LONG''"
    by (simp add: user_token_answer_def answer_def token_of_text_examples)
  have second: "answers [user_token_answer, error_answer] (Suc (length (calls empty_world)))
                  (page_token_request (PStr ''LONG'')) = Inr error_answer"
    by (simp add: answers_def empty_world_def)
  have body: "json error_answer = Inr (PDict [(''error'', PDict [(''code'', PInt 190)])])"
    by (simp add: error_answer_def answer_def)
  have a: "CHR ''='' \<notin> set (resp_text error_answer)"
    by (simp add: error_answer_def answer_def)
  from get_page_access_token_malformed
      [where w = empty_world and net = "answers [error_answer]" and env = example_env
         and eng = example_engine,
       OF none first, THEN conjunct1, rule_format, OF a]
    get_page_access_token_malformed
      [where w = empty_world and net = "answers [user_token_answer, error_answer]"
         and env = example_env and eng = example_engine,
       OF none first', THEN conjunct2, rule_format, OF tok second body]
  show ?thesis
    by (simp add: empty_world_def error_answer_def answer_def)
qed

theorem get_page_access_token_malformed_counterexample:
  "resp_text (answer 200 ''error=1'' (Inl ValueError)) = ''error=1'' \<and>
   get_page_access_token example_engine example_env
     (answers [answer 200 ''error=1'' (Inl ValueError), page_token_answer]) empty_world =
   (Return (PStr ''PAGE''),
    \<lparr>calls = [user_token_request example_env, page_token_request (PStr ''1'')],
     stdout = [Print ''- Getting a Facebook page access token'' [],
               Print ''- Fetching a new Facebook page access token'' [],
               Print ''- Exchanging the provided user token for a long-lived token'' []],
     credentials = [[(''id'', PInt 1), (''type'', PStr ''page_token''), (''token'', PStr ''PAGE'')]],
     fbia = []\<rparr>)"
  by (simp add: token_defs example_defs engine_defs find_one_def token_of_text_examples
      page_token_of_def)

section \<open>The feed fetcher\<close>

text \<open>
  C10. Whatever the status code of the answer to the feed request, the call hands the
  body to the XML parser and ends as the parser does: with its value, or with its
  exception. The status code is never read.
\<close>

theorem get_facebook_feed_no_status_check:
  assumes "net (length (calls w)) \<lparr>req_url = environ_get env ''FEED_URL'', req_params = []\<rparr> = Inr feed"
  shows "fst (get_facebook_feed env net xml_parse w) =
         (case xml_parse (resp_text feed) of Inl e \<Rightarrow> Raise e | Inr parsed \<Rightarrow> Return parsed)"
  using assms
  by (simp add: get_facebook_feed_def seq_def requests_get_def print_def lift_def ret_def raise_def
      split: sum.splits)

theorem get_facebook_feed_no_status_check_witness:
  "fst (get_facebook_feed example_env (answers [answer 404 ''<rss/>'' (Inl ValueError)])
          example_parse empty_world) = Return (PDict [(''rss'', PNone)])"
  using get_facebook_feed_no_status_check
    [of "answers [answer 404 ''<rss/>'' (Inl ValueError)]" empty_world example_env
        "answer 404 ''<rss/>'' (Inl ValueError)" example_parse]
  by (simp add: example_defs example_parse_def)

section \<open>The insights table\<close>

subsection \<open>Upserts under a key\<close>















subsection \<open>What a run changes\<close>









subsection \<open>The runs of the examples\<close>













end
